theory Spec2Isabelle
  imports Complex_Main
begin

section \<open>Shared data model\<close>

text \<open>
  Geographic coordinates, resolutions and elevation values are Python floats in the program.
  They are modelled as exact reals: rounding of floating-point arithmetic, NaN and infinite
  pixel values in the input data, and conversions between pixel datatypes are outside the
  model. Python exceptions are values of type \<open>error\<close>; a function that can raise returns
  \<open>error + 'a\<close> with \<open>Inl\<close> for the exception.
\<close>

datatype error =
    ValueError_EmptySequence
      \<comment> \<open>\<open>min()\<close>/\<open>max()\<close> of an empty sequence, \<open>np.nanmin\<close> of a zero-size array\<close>
  | ValueError_CRSMismatch
      \<comment> \<open>\<open>raise ValueError("CRS mismatch between DSM and Satellite rasters")\<close>\<close>
  | IndexError
      \<comment> \<open>list index out of range, band index out of range\<close>
  | ZeroDivisionError
  | RasterioIOError
      \<comment> \<open>a raster file cannot be opened or created\<close>
  | ReprojectionError
      \<comment> \<open>the external \<open>rasterio.warp.reproject\<close> fails\<close>

record bbox =
  b_left :: real
  b_bottom :: real
  b_right :: real
  b_top :: real

text \<open>The six coefficients of \<open>affine.Affine(a, b, c, d, e, f)\<close>.\<close>

record affine =
  af_a :: real
  af_b :: real
  af_c :: real
  af_d :: real
  af_e :: real
  af_f :: real

text \<open>
  An open \<open>rasterio\<close> dataset as far as \<open>merge_rasters.py\<close> reads it. \<open>ds_handle\<close> is the
  identity of the open handle; the pixel contents are only reached through the external
  reprojection service.
\<close>

record dataset =
  ds_handle :: nat
  ds_crs :: string
  ds_bounds :: bbox
  ds_res :: "real \<times> real"
  ds_transform :: affine
  ds_dtypes :: "string list"
  ds_nodata :: "real option"
  ds_count :: nat
  ds_width :: nat
  ds_height :: nat

record merge_metadata =
  md_transform :: affine
  md_crs :: string
  md_dtype :: string
  md_res :: real
  md_width :: int
  md_height :: int
  md_bounds :: "real \<times> real \<times> real \<times> real"

section \<open>Extent planner: \<open>compute_merge_metadata\<close>\<close>

text \<open>Python's \<open>min\<close> and \<open>max\<close> over a sequence: \<open>ValueError\<close> on the empty one.\<close>

fun py_min :: "real list \<Rightarrow> error + real" where
  "py_min [] = Inl ValueError_EmptySequence"
| "py_min (x # xs) = Inr (fold min xs x)"

fun py_max :: "real list \<Rightarrow> error + real" where
  "py_max [] = Inl ValueError_EmptySequence"
| "py_max (x # xs) = Inr (fold max xs x)"

text \<open>Python float division: \<open>ZeroDivisionError\<close> on a zero divisor.\<close>

definition py_fdiv :: "real \<Rightarrow> real \<Rightarrow> error + real" where
  "py_fdiv x y = (if y = 0 then Inl ZeroDivisionError else Inr (x / y))"

text \<open>
  \<open>rasterio.transform.from_bounds(west, south, east, north, width, height)\<close>, that is
  \<open>Affine.translation(west, north) * Affine.scale((east - west) / width, (south - north) / height)\<close>.
\<close>

definition from_bounds :: "real \<Rightarrow> real \<Rightarrow> real \<Rightarrow> real \<Rightarrow> int \<Rightarrow> int \<Rightarrow> error + affine" where
  "from_bounds west south east north width height =
     (case py_fdiv (east - west) (of_int width) of
        Inl e \<Rightarrow> Inl e
      | Inr sx \<Rightarrow>
          (case py_fdiv (south - north) (of_int height) of
             Inl e \<Rightarrow> Inl e
           | Inr sy \<Rightarrow>
               Inr \<lparr>af_a = sx, af_b = 0, af_c = west, af_d = 0, af_e = sy, af_f = north\<rparr>))"

text \<open>Element 0 of a Python sequence.\<close>

definition first_elem :: "'a list \<Rightarrow> error + 'a" where
  "first_elem xs = (case xs of [] \<Rightarrow> Inl IndexError | x # _ \<Rightarrow> Inr x)"

definition compute_merge_metadata :: "dataset list \<Rightarrow> real \<Rightarrow> error + merge_metadata" where
  "compute_merge_metadata src_datasets scale_factor =
     (let bounds = map ds_bounds src_datasets in
      case py_min (map b_left bounds) of Inl e \<Rightarrow> Inl e | Inr minx \<Rightarrow>
      case py_min (map b_bottom bounds) of Inl e \<Rightarrow> Inl e | Inr miny \<Rightarrow>
      case py_max (map b_right bounds) of Inl e \<Rightarrow> Inl e | Inr maxx \<Rightarrow>
      case py_max (map b_top bounds) of Inl e \<Rightarrow> Inl e | Inr maxy \<Rightarrow>
      case first_elem src_datasets of Inl e \<Rightarrow> Inl e | Inr ref \<Rightarrow>
      case py_fdiv (fst (ds_res ref)) scale_factor of Inl e \<Rightarrow> Inl e | Inr target_res \<Rightarrow>
      case first_elem (ds_dtypes ref) of Inl e \<Rightarrow> Inl e | Inr dtype \<Rightarrow>
      case py_fdiv (maxx - minx) target_res of Inl e \<Rightarrow> Inl e | Inr wq \<Rightarrow>
      case py_fdiv (maxy - miny) target_res of Inl e \<Rightarrow> Inl e | Inr hq \<Rightarrow>
      (let width = \<lceil>wq\<rceil>; height = \<lceil>hq\<rceil> in
       case from_bounds minx miny maxx maxy width height of Inl e \<Rightarrow> Inl e | Inr transform \<Rightarrow>
       Inr \<lparr>md_transform = transform, md_crs = ds_crs ref, md_dtype = dtype,
            md_res = target_res, md_width = width, md_height = height,
            md_bounds = (minx, miny, maxx, maxy)\<rparr>))"




section \<open>Blockwise mosaic compositor: \<open>write_raster_blocks\<close>\<close>

text \<open>\<open>Window(x_off, y_off, w, h)\<close> of a block of the output grid.\<close>

record block_window =
  bw_col_off :: nat
  bw_row_off :: nat
  bw_width :: nat
  bw_height :: nat

text \<open>
  The external reprojection service \<open>rasterio.warp.reproject\<close> for the resampling method in
  use, as the compositor calls it: the source band (dataset and band number; the source
  transform, coordinate system and nodata are the dataset's), the destination transform and
  coordinate system, the shape \<open>(h, w)\<close> of the destination buffer and the destination nodata.
  It fails, or gives the contents of the destination buffer after the call as a function of
  the row and the column in the buffer.
\<close>

type_synonym reproject_service =
  "dataset \<Rightarrow> nat \<Rightarrow> affine \<Rightarrow> string \<Rightarrow> nat \<times> nat \<Rightarrow> real \<Rightarrow> error + (nat \<Rightarrow> nat \<Rightarrow> real)"

text \<open>\<open>transform * Affine.translation(x_off, y_off)\<close>.\<close>

definition affine_translated :: "affine \<Rightarrow> real \<Rightarrow> real \<Rightarrow> affine" where
  "affine_translated t x y =
     t\<lparr>af_c := af_a t * x + af_b t * y + af_c t, af_f := af_d t * x + af_e t * y + af_f t\<rparr>"

text \<open>\<open>np.full((h, w), v)\<close> and the buffer a service result leaves in \<open>temp\<close>.\<close>

definition np_full2 :: "nat \<Rightarrow> nat \<Rightarrow> 'a \<Rightarrow> 'a list list" where
  "np_full2 h w v = replicate h (replicate w v)"

definition buffer_of :: "nat \<Rightarrow> nat \<Rightarrow> (nat \<Rightarrow> nat \<Rightarrow> 'a) \<Rightarrow> 'a list list" where
  "buffer_of h w f = map (\<lambda>i. map (\<lambda>j. f i j) [0..<w]) [0..<h]"

text \<open>\<open>mask = temp != nodata_value; band[mask] = temp[mask]\<close> on one band of the block.\<close>

definition overwrite_valid :: "real \<Rightarrow> real list list \<Rightarrow> real list list \<Rightarrow> real list list" where
  "overwrite_valid nodata_value band temp =
     map2 (map2 (\<lambda>old t. if t \<noteq> nodata_value then t else old)) band temp"

text \<open>The inner loop \<open>for band in range(1, num_bands + 1)\<close> for one source.\<close>

fun composite_bands ::
  "reproject_service \<Rightarrow> merge_metadata \<Rightarrow> nat \<Rightarrow> nat \<Rightarrow> nat \<Rightarrow> nat \<Rightarrow> real \<Rightarrow> dataset \<Rightarrow>
   nat list \<Rightarrow> real list list list \<Rightarrow> error + real list list list" where
  "composite_bands reproject metadata x_off y_off h w nodata_value src [] block_data = Inr block_data"
| "composite_bands reproject metadata x_off y_off h w nodata_value src (band # bands) block_data =
     (case reproject src band
             (affine_translated (md_transform metadata) (real x_off) (real y_off))
             (md_crs metadata) (h, w) nodata_value of
        Inl e \<Rightarrow> Inl e
      | Inr f \<Rightarrow>
          composite_bands reproject metadata x_off y_off h w nodata_value src bands
            (block_data[band - 1 :=
               overwrite_valid nodata_value (block_data ! (band - 1)) (buffer_of h w f)]))"

text \<open>The loop \<open>for src in src_datasets\<close> for one block.\<close>

fun composite_sources ::
  "reproject_service \<Rightarrow> merge_metadata \<Rightarrow> nat \<Rightarrow> nat \<Rightarrow> nat \<Rightarrow> nat \<Rightarrow> nat \<Rightarrow> real \<Rightarrow>
   dataset list \<Rightarrow> real list list list \<Rightarrow> error + real list list list" where
  "composite_sources reproject metadata num_bands x_off y_off h w nodata_value [] block_data =
     Inr block_data"
| "composite_sources reproject metadata num_bands x_off y_off h w nodata_value (src # srcs) block_data =
     (case composite_bands reproject metadata x_off y_off h w nodata_value src
             [1..<num_bands + 1] block_data of
        Inl e \<Rightarrow> Inl e
      | Inr block_data' \<Rightarrow>
          composite_sources reproject metadata num_bands x_off y_off h w nodata_value srcs block_data')"

text \<open>
  Python's \<open>range(0, stop, step)\<close> for \<open>stop \<ge> 0\<close> and \<open>step \<noteq> 0\<close> (empty for a negative
  step).
\<close>

definition range_step :: "nat \<Rightarrow> int \<Rightarrow> nat list" where
  "range_step stop step =
     (if step \<le> 0 then [] else map (\<lambda>k. k * nat step) [0..<(stop + nat step - 1) div nat step])"

text \<open>
  The two block loops, over the block origins \<open>(y_off, x_off)\<close> in row-major order. Each block
  is composited and written to the output at its window; the result lists the writes in
  order. A failing reprojection aborts the loops.
\<close>

fun write_blocks ::
  "reproject_service \<Rightarrow> dataset list \<Rightarrow> merge_metadata \<Rightarrow> nat \<Rightarrow> nat \<Rightarrow> real \<Rightarrow>
   (nat \<times> nat) list \<Rightarrow> error + (block_window \<times> real list list list) list" where
  "write_blocks reproject src_datasets metadata num_bands block_size nodata_value [] = Inr []"
| "write_blocks reproject src_datasets metadata num_bands block_size nodata_value
     ((y_off, x_off) # rest) =
     (let h = min block_size (nat (md_height metadata) - y_off);
          w = min block_size (nat (md_width metadata) - x_off);
          window = \<lparr>bw_col_off = x_off, bw_row_off = y_off, bw_width = w, bw_height = h\<rparr>;
          block_data = replicate num_bands (np_full2 h w nodata_value)
      in case composite_sources reproject metadata num_bands x_off y_off h w nodata_value
                src_datasets block_data of
           Inl e \<Rightarrow> Inl e
         | Inr block_data' \<Rightarrow>
             (case write_blocks reproject src_datasets metadata num_bands block_size nodata_value rest of
                Inl e \<Rightarrow> Inl e
              | Inr writes \<Rightarrow> Inr ((window, block_data') # writes)))"

text \<open>
  The composite nodata value: the first dataset's nodata, else \<open>-9999\<close> for one band
  and \<open>0\<close> otherwise.
\<close>

definition composite_nodata :: "dataset \<Rightarrow> nat \<Rightarrow> real" where
  "composite_nodata src0 num_bands =
     (case ds_nodata src0 of
        None \<Rightarrow> (if num_bands = 1 then - 9999 else 0)
      | Some v \<Rightarrow> v)"

text \<open>
  \<open>write_raster_blocks\<close>. \<open>total_blocks\<close> divides by the block size; the output GeoTIFF
  cannot be created unless width, height and band count are positive.
\<close>

definition write_raster_blocks ::
  "reproject_service \<Rightarrow> dataset list \<Rightarrow> merge_metadata \<Rightarrow> nat \<Rightarrow> int \<Rightarrow>
   error + (block_window \<times> real list list list) list" where
  "write_raster_blocks reproject src_datasets metadata num_bands block_size =
     (case first_elem src_datasets of
        Inl e \<Rightarrow> Inl e
      | Inr src0 \<Rightarrow>
          if block_size = 0 then Inl ZeroDivisionError
          else if md_height metadata \<le> 0 \<or> md_width metadata \<le> 0 \<or> num_bands = 0
          then Inl RasterioIOError
          else write_blocks reproject src_datasets metadata num_bands (nat block_size)
                 (composite_nodata src0 num_bands)
                 (List.product (range_step (nat (md_height metadata)) block_size)
                               (range_step (nat (md_width metadata)) block_size)))"










section \<open>The merge operation: \<open>merge_rasters\<close>\<close>

text \<open>
  The dataset handles that are open, and the next fresh handle. \<open>rasterio.open\<close> and
  \<open>MemoryFile.open\<close> add a handle, \<open>close\<close> removes it.
\<close>

record handle_state =
  open_handles :: "nat list"
  next_handle :: nat

text \<open>
  \<open>rasterio.open(f)\<close> in read mode. The file system is a parameter: what each path opens
  to, or nothing when the file cannot be opened.
\<close>

definition rasterio_open ::
  "(string \<Rightarrow> dataset option) \<Rightarrow> string \<Rightarrow> handle_state \<Rightarrow> handle_state \<times> (error + dataset)" where
  "rasterio_open fs f st =
     (case fs f of
        None \<Rightarrow> (st, Inl RasterioIOError)
      | Some d \<Rightarrow>
          (st\<lparr>open_handles := open_handles st @ [next_handle st],
              next_handle := Suc (next_handle st)\<rparr>,
           Inr (d\<lparr>ds_handle := next_handle st\<rparr>)))"

text \<open>\<open>[rasterio.open(f) for f in file_list]\<close>: the first failure ends the comprehension.\<close>

fun open_all ::
  "(string \<Rightarrow> dataset option) \<Rightarrow> string list \<Rightarrow> handle_state \<Rightarrow> handle_state \<times> (error + dataset list)" where
  "open_all fs [] st = (st, Inr [])"
| "open_all fs (f # fl) st =
     (case rasterio_open fs f st of
        (st1, Inl e) \<Rightarrow> (st1, Inl e)
      | (st1, Inr d) \<Rightarrow>
          (case open_all fs fl st1 of
             (st2, Inl e) \<Rightarrow> (st2, Inl e)
           | (st2, Inr ds) \<Rightarrow> (st2, Inr (d # ds))))"

text \<open>
  The loop \<open>for band in range(1, src.count + 1)\<close> of \<open>reproject_rasters_to_crs\<close>; the
  external warp of one band into the temporary dataset is a parameter that fails or not.
\<close>

fun warp_bands :: "(dataset \<Rightarrow> nat \<Rightarrow> string \<Rightarrow> error option) \<Rightarrow> dataset \<Rightarrow> string \<Rightarrow> nat list \<Rightarrow> error option" where
  "warp_bands warp src target_crs [] = None"
| "warp_bands warp src target_crs (band # bands) =
     (case warp src band target_crs of
        Some e \<Rightarrow> Some e
      | None \<Rightarrow> warp_bands warp src target_crs bands)"

text \<open>
  \<open>reproject_rasters_to_crs\<close>. A source in another coordinate system is warped into a
  \<open>MemoryFile\<close> (the temporary writer is closed by its \<open>with\<close> block) and the dataset that
  \<open>memfile.open()\<close> returns takes its place in the result: size, band count, datatype and
  transform of the source, the target coordinate system, no nodata. The source itself is
  left as it is.
\<close>

fun reproject_rasters_to_crs ::
  "(dataset \<Rightarrow> nat \<Rightarrow> string \<Rightarrow> error option) \<Rightarrow> dataset list \<Rightarrow> string \<Rightarrow> handle_state \<Rightarrow>
   handle_state \<times> (error + dataset list)" where
  "reproject_rasters_to_crs warp [] target_crs st = (st, Inr [])"
| "reproject_rasters_to_crs warp (src # srcs) target_crs st =
     (if ds_crs src \<noteq> target_crs then
        (case first_elem (ds_dtypes src) of
           Inl e \<Rightarrow> (st, Inl e)
         | Inr dtype \<Rightarrow>
             (case warp_bands warp src target_crs [1..<ds_count src + 1] of
                Some e \<Rightarrow> (st, Inl e)
              | None \<Rightarrow>
                  (let mem = src\<lparr>ds_handle := next_handle st, ds_crs := target_crs,
                                 ds_dtypes := replicate (ds_count src) dtype, ds_nodata := None\<rparr>;
                       st1 = st\<lparr>open_handles := open_handles st @ [next_handle st],
                                next_handle := Suc (next_handle st)\<rparr>
                   in case reproject_rasters_to_crs warp srcs target_crs st1 of
                        (st2, Inl e) \<Rightarrow> (st2, Inl e)
                      | (st2, Inr ds) \<Rightarrow> (st2, Inr (mem # ds)))))
      else
        (case reproject_rasters_to_crs warp srcs target_crs st of
           (st2, Inl e) \<Rightarrow> (st2, Inl e)
         | (st2, Inr ds) \<Rightarrow> (st2, Inr (src # ds))))"

text \<open>\<open>for s in src_datasets: s.close()\<close>.\<close>

definition close_all :: "dataset list \<Rightarrow> handle_state \<Rightarrow> handle_state" where
  "close_all ds st = st\<lparr>open_handles := filter (\<lambda>h. h \<notin> set (map ds_handle ds)) (open_handles st)\<rparr>"

text \<open>
  \<open>merge_rasters\<close>, with the block size of \<open>**kwargs\<close> made explicit. An exception of any
  stage leaves the function at once: there is no \<open>try\<close>/\<open>finally\<close> around the stages.
\<close>

definition merge_rasters ::
  "(string \<Rightarrow> dataset option) \<Rightarrow> (dataset \<Rightarrow> nat \<Rightarrow> string \<Rightarrow> error option) \<Rightarrow> reproject_service \<Rightarrow>
   string list \<Rightarrow> nat \<Rightarrow> real \<Rightarrow> int \<Rightarrow> handle_state \<Rightarrow>
   handle_state \<times> (error + (block_window \<times> real list list list) list)" where
  "merge_rasters fs warp reproject file_list num_bands scale_factor block_size st =
     (case open_all fs file_list st of
        (st1, Inl e) \<Rightarrow> (st1, Inl e)
      | (st1, Inr src_paths) \<Rightarrow>
     (case first_elem src_paths of
        Inl e \<Rightarrow> (st1, Inl e)
      | Inr p0 \<Rightarrow>
     (case reproject_rasters_to_crs warp src_paths (ds_crs p0) st1 of
        (st2, Inl e) \<Rightarrow> (st2, Inl e)
      | (st2, Inr src_datasets) \<Rightarrow>
     (case compute_merge_metadata src_datasets scale_factor of
        Inl e \<Rightarrow> (st2, Inl e)
      | Inr metadata \<Rightarrow>
     (case write_raster_blocks reproject src_datasets metadata num_bands block_size of
        Inl e \<Rightarrow> (st2, Inl e)
      | Inr result \<Rightarrow> (close_all src_datasets st2, Inr result))))))"

text \<open>
  Test inputs: a file system with two small tiles, the second in another coordinate system, and
  reprojection services that always fail or always give the constant 7.
\<close>

definition small_tile :: dataset where
  "small_tile = \<lparr>ds_handle = 0, ds_crs = ''EPSG:25830'',
     ds_bounds = \<lparr>b_left = 0, b_bottom = 0, b_right = 2, b_top = 1\<rparr>,
     ds_res = (1, 1),
     ds_transform = \<lparr>af_a = 1, af_b = 0, af_c = 0, af_d = 0, af_e = - 1, af_f = 1\<rparr>,
     ds_dtypes = [''float32''], ds_nodata = Some (- 9999), ds_count = 1,
     ds_width = 2, ds_height = 1\<rparr>"

definition example_fs :: "string \<Rightarrow> dataset option" where
  "example_fs f =
     (if f = ''a.tif'' then Some small_tile
      else if f = ''b.tif'' then Some (small_tile\<lparr>ds_crs := ''EPSG:4326''\<rparr>)
      else None)"

definition failing_reproject :: reproject_service where
  "failing_reproject src band tf crs shape nd = Inl ReprojectionError"

definition constant_reproject :: reproject_service where
  "constant_reproject src band tf crs shape nd = Inr (\<lambda>i j. 7)"

definition no_handles :: handle_state where
  "no_handles = \<lparr>open_handles = [], next_handle = 0\<rparr>"

section \<open>Global elevation rescaler: \<open>rescale_dsm_global\<close>\<close>

text \<open>
  The values of a \<open>float32\<close> array while it is rescaled: a finite number (an exact real in
  this model), an infinity or NaN. The raster's own samples are finite; NaN comes from the
  nodata mask and from \<open>0 / 0\<close>, an infinity from a division of a non-zero number by zero.
\<close>

datatype fval = Fin real | PInf | NInf | NaN

fun fsub :: "fval \<Rightarrow> fval \<Rightarrow> fval" where
  "fsub NaN y = NaN"
| "fsub x NaN = NaN"
| "fsub (Fin a) (Fin b) = Fin (a - b)"
| "fsub (Fin a) PInf = NInf"
| "fsub (Fin a) NInf = PInf"
| "fsub PInf PInf = NaN"
| "fsub PInf y = PInf"
| "fsub NInf NInf = NaN"
| "fsub NInf y = NInf"

text \<open>The infinity of the sign of \<open>s\<close>, for \<open>s \<noteq> 0\<close>.\<close>

definition signed_inf :: "real \<Rightarrow> fval" where
  "signed_inf s = (if 0 < s then PInf else NInf)"

fun fdiv :: "fval \<Rightarrow> fval \<Rightarrow> fval" where
  "fdiv NaN y = NaN"
| "fdiv x NaN = NaN"
| "fdiv (Fin a) (Fin b) =
     (if b \<noteq> 0 then Fin (a / b) else if a = 0 then NaN else signed_inf a)"
| "fdiv (Fin a) y = Fin 0"
| "fdiv PInf (Fin b) = (if 0 \<le> b then PInf else NInf)"
| "fdiv NInf (Fin b) = (if 0 \<le> b then NInf else PInf)"
| "fdiv x y = NaN"

fun fmul :: "fval \<Rightarrow> fval \<Rightarrow> fval" where
  "fmul NaN y = NaN"
| "fmul x NaN = NaN"
| "fmul (Fin a) (Fin b) = Fin (a * b)"
| "fmul (Fin a) PInf = (if a = 0 then NaN else signed_inf a)"
| "fmul (Fin a) NInf = (if a = 0 then NaN else signed_inf (- a))"
| "fmul PInf (Fin b) = (if b = 0 then NaN else signed_inf b)"
| "fmul NInf (Fin b) = (if b = 0 then NaN else signed_inf (- b))"
| "fmul PInf PInf = PInf"
| "fmul NInf NInf = PInf"
| "fmul PInf NInf = NInf"
| "fmul NInf PInf = NInf"

fun fless :: "fval \<Rightarrow> fval \<Rightarrow> bool" where
  "fless (Fin a) (Fin b) = (a < b)"
| "fless NInf NInf = False"
| "fless NInf NaN = False"
| "fless NInf y = True"
| "fless (Fin a) PInf = True"
| "fless x y = False"

definition fmin :: "fval \<Rightarrow> fval \<Rightarrow> fval" where
  "fmin x y = (if fless y x then y else x)"

definition fmax :: "fval \<Rightarrow> fval \<Rightarrow> fval" where
  "fmax x y = (if fless x y then y else x)"

text \<open>
  \<open>np.nanmin\<close> and \<open>np.nanmax\<close> of a flattened array: \<open>ValueError\<close> on a zero-size array,
  NaN (with a warning only) when every element is NaN, else the extremum of the others.
\<close>

definition nanmin :: "fval list \<Rightarrow> error + fval" where
  "nanmin xs =
     (if xs = [] then Inl ValueError_EmptySequence
      else case filter (\<lambda>x. x \<noteq> NaN) xs of
             [] \<Rightarrow> Inr NaN
           | y # ys \<Rightarrow> Inr (fold fmin ys y))"

definition nanmax :: "fval list \<Rightarrow> error + fval" where
  "nanmax xs =
     (if xs = [] then Inl ValueError_EmptySequence
      else case filter (\<lambda>x. x \<noteq> NaN) xs of
             [] \<Rightarrow> Inr NaN
           | y # ys \<Rightarrow> Inr (fold fmax ys y))"

text \<open>The largest finite \<open>float32\<close>.\<close>

definition float32_max :: real where
  "float32_max = (2 - 1 / 2 ^ 23) * 2 ^ 127"

text \<open>\<open>np.nan_to_num(x, nan=v)\<close> on one \<open>float32\<close> element.\<close>

fun nan_to_num :: "fval \<Rightarrow> fval \<Rightarrow> fval" where
  "nan_to_num NaN v = v"
| "nan_to_num PInf v = Fin float32_max"
| "nan_to_num NInf v = Fin (- float32_max)"
| "nan_to_num (Fin a) v = Fin a"

text \<open>
  \<open>.astype(np.uint16)\<close> on one element: the fraction is discarded. For NaN, an infinity
  or a number whose integral part is outside \<open>0..65535\<close> the conversion is undefined in C
  and the result depends on the platform; \<open>undef_cast\<close> stands for what the platform gives.
\<close>

definition astype_uint16 :: "(fval \<Rightarrow> nat) \<Rightarrow> fval \<Rightarrow> nat" where
  "astype_uint16 undef_cast x =
     (case x of
        Fin r \<Rightarrow> if - 1 < r \<and> r < 65536 then nat \<lfloor>r\<rfloor> else undef_cast x
      | _ \<Rightarrow> undef_cast x)"

text \<open>\<open>window\<close> of \<open>rasterio.windows\<close>: offsets and lengths are floats.\<close>

record window =
  w_col_off :: real
  w_row_off :: real
  w_width :: real
  w_height :: real

text \<open>
  An open raster as \<open>export_chunks.py\<close> reads it. The library services are fields:
  \<open>r_band b\<close> is \<open>read(b)\<close>, the whole band; \<open>r_window\<close> is
  \<open>window(left, bottom, right, top)\<close>; a boundless windowed read of band \<open>b\<close> has the shape
  \<open>r_window_shape w = (height, width)\<close> and holds \<open>r_sample b w i j\<close> at row \<open>i\<close>,
  column \<open>j\<close> (the fill value outside the raster's extent).
\<close>

record raster =
  r_crs :: string
  r_bounds :: bbox
  r_nodata :: "real option"
  r_count :: nat
  r_band :: "nat \<Rightarrow> real list list"
  r_window :: "real \<Rightarrow> real \<Rightarrow> real \<Rightarrow> real \<Rightarrow> window"
  r_window_shape :: "window \<Rightarrow> nat \<times> nat"
  r_sample :: "nat \<Rightarrow> window \<Rightarrow> nat \<Rightarrow> nat \<Rightarrow> int"

text \<open>\<open>src.read(b)\<close>: the band index must be one of \<open>1..count\<close>.\<close>

definition read_band :: "raster \<Rightarrow> nat \<Rightarrow> error + real list list" where
  "read_band src b = (if 1 \<le> b \<and> b \<le> r_count src then Inr (r_band src b) else Inl IndexError)"

text \<open>\<open>dsm_data != nodata_value\<close> on one element; against \<open>None\<close> every element differs.\<close>

definition valid_mask :: "real option \<Rightarrow> real \<Rightarrow> bool" where
  "valid_mask nodata_value v = (case nodata_value of None \<Rightarrow> True | Some nd \<Rightarrow> v \<noteq> nd)"

definition scale_pixel :: "(fval \<Rightarrow> nat) \<Rightarrow> fval \<Rightarrow> fval \<Rightarrow> fval \<Rightarrow> nat" where
  "scale_pixel undef_cast global_min global_max x =
     astype_uint16 undef_cast
       (fmul (fdiv (fsub (nan_to_num x global_min) global_min) (fsub global_max global_min))
          (Fin 65535))"

definition rescale_dsm_global :: "(fval \<Rightarrow> nat) \<Rightarrow> raster \<Rightarrow> error + (nat list list \<times> real option)" where
  "rescale_dsm_global undef_cast src =
     (case read_band src 1 of
        Inl e \<Rightarrow> Inl e
      | Inr dsm_data \<Rightarrow>
          (let nodata_value = r_nodata src;
               valid_data = map (map (\<lambda>v. if valid_mask nodata_value v then Fin v else NaN)) dsm_data
           in case nanmin (concat valid_data) of
                Inl e \<Rightarrow> Inl e
              | Inr global_min \<Rightarrow>
                  (case nanmax (concat valid_data) of
                     Inl e \<Rightarrow> Inl e
                   | Inr global_max \<Rightarrow>
                       Inr (map (map (scale_pixel undef_cast global_min global_max)) valid_data,
                            nodata_value))))"

text \<open>The valid samples of the elevation band: those that differ from nodata.\<close>

definition valid_values :: "raster \<Rightarrow> real list" where
  "valid_values src = filter (valid_mask (r_nodata src)) (concat (r_band src 1))"

text \<open>
  Test inputs: one-row elevation rasters (pixels 1 wide and 2 high) with nodata \<open>-9999\<close>. Their samples and the
  intermediate results of the rescaling are exactly representable in \<open>float32\<close>.
\<close>

definition ramp_dsm :: raster where
  "ramp_dsm = \<lparr>r_crs = ''EPSG:25830'',
     r_bounds = \<lparr>b_left = 0, b_bottom = 0, b_right = 4, b_top = 2\<rparr>,
     r_nodata = Some (- 9999), r_count = 1,
     r_band = (\<lambda>b. [[0, 1, 2, - 9999]]),
     r_window = (\<lambda>l b r t. \<lparr>w_col_off = l, w_row_off = (2 - t) / 2, w_width = r - l,
                             w_height = (t - b) / 2\<rparr>),
     r_window_shape = (\<lambda>w. (nat \<lfloor>w_height w\<rfloor>, nat \<lfloor>w_width w\<rfloor>)),
     r_sample = (\<lambda>b w i j. 0)\<rparr>"

definition flat_dsm :: raster where
  "flat_dsm = ramp_dsm\<lparr>r_band := (\<lambda>b. [[5, 5]])\<rparr>"

definition nodata_dsm :: raster where
  "nodata_dsm = ramp_dsm\<lparr>r_band := (\<lambda>b. [[- 9999, - 9999]])\<rparr>"

section \<open>Tile encoder and chunk splitter: \<open>generate_chunks\<close>\<close>

text \<open>The two input mosaics, and the PNG images written: 16-bit grey or 8-bit RGB.\<close>

datatype role = DSM | Satellite

datatype png = Png16 "nat list list" | PngRGB "nat list list list"

text \<open>
  The input and output operations of \<open>generate_chunks\<close>, in the order they happen. The
  files in the output folder are the \<open>SavePng\<close> events.
\<close>

datatype io_event =
    Makedirs
  | OpenRaster role
  | ReadBand role nat
  | ReadWindow role "nat list" window
  | CloseRaster role
  | SavePng string png

fun saved_pngs :: "io_event list \<Rightarrow> (string \<times> png) list" where
  "saved_pngs [] = []"
| "saved_pngs (SavePng name img # evs) = (name, img) # saved_pngs evs"
| "saved_pngs (ev # evs) = saved_pngs evs"

fun raster_reads :: "io_event list \<Rightarrow> io_event list" where
  "raster_reads [] = []"
| "raster_reads (ReadBand r b # evs) = ReadBand r b # raster_reads evs"
| "raster_reads (ReadWindow r bs w # evs) = ReadWindow r bs w # raster_reads evs"
| "raster_reads (ev # evs) = raster_reads evs"



text \<open>Python's \<open>int(x)\<close> of a float: truncation towards zero.\<close>

definition py_int :: "real \<Rightarrow> int" where
  "py_int x = (if 0 \<le> x then \<lfloor>x\<rfloor> else \<lceil>x\<rceil>)"

text \<open>
  The slice \<open>xs[start:stop]\<close> with integer bounds: a negative bound counts from the end,
  and both are clipped to the length.
\<close>

definition slice_bound :: "nat \<Rightarrow> int \<Rightarrow> nat" where
  "slice_bound n k = (if k < 0 then nat (max (k + int n) 0) else min (nat k) n)"

definition py_slice :: "int \<Rightarrow> int \<Rightarrow> 'a list \<Rightarrow> 'a list" where
  "py_slice start stop xs =
     (let s = slice_bound (length xs) start; e = slice_bound (length xs) stop
      in take (e - s) (drop s xs))"

text \<open>The format \<open>{n:03d}\<close> of a non-negative integer: decimal, zero-padded to three digits.\<close>

definition digit_char :: "nat \<Rightarrow> char" where
  "digit_char d = ''0123456789'' ! d"

fun dec_digits :: "nat \<Rightarrow> string" where
  "dec_digits n = (if n < 10 then [digit_char n] else dec_digits (n div 10) @ [digit_char (n mod 10)])"

declare dec_digits.simps [simp del]

definition format_03d :: "nat \<Rightarrow> string" where
  "format_03d n = replicate (3 - length (dec_digits n)) (CHR ''0'') @ dec_digits n"

definition dsm_filename :: "nat \<Rightarrow> nat \<Rightarrow> string" where
  "dsm_filename row col = ''dsm_r'' @ format_03d row @ ''_c'' @ format_03d col @ ''.png''"

definition satellite_filename :: "nat \<Rightarrow> nat \<Rightarrow> string" where
  "satellite_filename row col = ''satellite_r'' @ format_03d row @ ''_c'' @ format_03d col @ ''.png''"

text \<open>
  \<open>save_dsm_chunk_png\<close>: samples equal to the nodata value become 0, and the array is
  written as 16-bit PNG. The image codec is taken as total.
\<close>

definition save_dsm_chunk_png :: "nat list list \<Rightarrow> real option \<Rightarrow> png" where
  "save_dsm_chunk_png dsm_chunk nodata_value =
     Png16 (map (map (\<lambda>v. (if valid_mask nodata_value (real v) then v else 0) mod 65536)) dsm_chunk)"

text \<open>\<open>np.moveaxis(a, 0, -1)\<close> of an array of shape (band, row, col).\<close>

definition moveaxis_first_last :: "'a list list list \<Rightarrow> 'a list list list" where
  "moveaxis_first_last bands =
     (case bands of
        [] \<Rightarrow> []
      | b0 # _ \<Rightarrow>
          map (\<lambda>i. map (\<lambda>j. map (\<lambda>b. b ! i ! j) bands)
                      [0..<(case b0 of [] \<Rightarrow> 0 | r0 # _ \<Rightarrow> length r0)])
            [0..<length b0])"

text \<open>\<open>save_rgb_chunk_png\<close>: axes reordered, samples converted to \<open>uint8\<close>.\<close>

definition save_rgb_chunk_png :: "int list list list \<Rightarrow> real option \<Rightarrow> png" where
  "save_rgb_chunk_png rgb_chunk nodata_value =
     PngRGB (map (map (map (\<lambda>v. nat (v mod 256)))) (moveaxis_first_last rgb_chunk))"

text \<open>
  \<open>src.read(indexes, window=w, boundless=True, fill_value=...)\<close>: every index must be a
  band of the raster; the result has one buffer per index, all of the window's shape.
\<close>

definition read_window :: "raster \<Rightarrow> nat list \<Rightarrow> window \<Rightarrow> error + int list list list" where
  "read_window src indexes w =
     (if list_all (\<lambda>b. 1 \<le> b \<and> b \<le> r_count src) indexes
      then Inr (map (\<lambda>b. buffer_of (fst (r_window_shape src w)) (snd (r_window_shape src w))
                            (r_sample src b w)) indexes)
      else Inl IndexError)"

text \<open>The common bounding box: the intersection of the two rasters' bounds.\<close>

definition common_bounds :: "raster \<Rightarrow> raster \<Rightarrow> bbox" where
  "common_bounds dsm satellite =
     \<lparr>b_left = max (b_left (r_bounds dsm)) (b_left (r_bounds satellite)),
      b_bottom = max (b_bottom (r_bounds dsm)) (b_bottom (r_bounds satellite)),
      b_right = min (b_right (r_bounds dsm)) (b_right (r_bounds satellite)),
      b_top = min (b_top (r_bounds dsm)) (b_top (r_bounds satellite))\<rparr>"

text \<open>The geographic cell of \<open>(row, col)\<close>, for non-zero \<open>n_rows\<close> and \<open>n_cols\<close>.\<close>

definition geo_cell :: "bbox \<Rightarrow> int \<Rightarrow> int \<Rightarrow> nat \<Rightarrow> nat \<Rightarrow> bbox" where
  "geo_cell common n_rows n_cols row col =
     (let chunk_width = (b_right common - b_left common) / real_of_int n_cols;
          chunk_height = (b_top common - b_bottom common) / real_of_int n_rows;
          chunk_left = b_left common + real col * chunk_width;
          chunk_right = chunk_left + chunk_width;
          chunk_bottom = b_bottom common + real row * chunk_height;
          chunk_top = chunk_bottom + chunk_height
      in \<lparr>b_left = chunk_left, b_bottom = chunk_bottom, b_right = chunk_right, b_top = chunk_top\<rparr>)"

text \<open>The elevation chunk: a crop of the rescaled buffer at the truncated window.\<close>

definition crop_window :: "'a list list \<Rightarrow> window \<Rightarrow> 'a list list" where
  "crop_window scaled_dsm w =
     map (py_slice (py_int (w_col_off w)) (py_int (w_col_off w + w_width w)))
       (py_slice (py_int (w_row_off w)) (py_int (w_row_off w + w_height w)) scaled_dsm)"

text \<open>The body of the two loops for one cell.\<close>

definition process_cell ::
  "raster \<Rightarrow> raster \<Rightarrow> nat list list \<Rightarrow> real option \<Rightarrow> bbox \<Rightarrow> nat \<Rightarrow> nat \<Rightarrow>
   io_event list \<times> (error + unit)" where
  "process_cell dsm satellite scaled_dsm dsm_nodata cell row col =
     (let dsm_window = r_window dsm (b_left cell) (b_bottom cell) (b_right cell) (b_top cell);
          satellite_window =
            r_window satellite (b_left cell) (b_bottom cell) (b_right cell) (b_top cell);
          dsm_chunk = crop_window scaled_dsm dsm_window
      in case read_window satellite [1, 2, 3] satellite_window of
           Inl e \<Rightarrow> ([ReadWindow Satellite [1, 2, 3] satellite_window], Inl e)
         | Inr satellite_chunk \<Rightarrow>
             ([ReadWindow Satellite [1, 2, 3] satellite_window,
               SavePng (dsm_filename row col) (save_dsm_chunk_png dsm_chunk dsm_nodata),
               SavePng (satellite_filename row col)
                 (save_rgb_chunk_png satellite_chunk (r_nodata satellite))],
              Inr ()))"

text \<open>The loops over rows and columns, as one loop over the cells in row-major order.\<close>

fun chunk_loop ::
  "raster \<Rightarrow> raster \<Rightarrow> nat list list \<Rightarrow> real option \<Rightarrow> bbox \<Rightarrow> int \<Rightarrow> int \<Rightarrow> (nat \<times> nat) list \<Rightarrow>
   io_event list \<times> (error + unit)" where
  "chunk_loop dsm satellite scaled_dsm dsm_nodata common n_rows n_cols [] = ([], Inr ())"
| "chunk_loop dsm satellite scaled_dsm dsm_nodata common n_rows n_cols ((row, col) # cells) =
     (case process_cell dsm satellite scaled_dsm dsm_nodata
             (geo_cell common n_rows n_cols row col) row col of
        (evs, Inl e) \<Rightarrow> (evs, Inl e)
      | (evs, Inr u) \<Rightarrow>
          (case chunk_loop dsm satellite scaled_dsm dsm_nodata common n_rows n_cols cells of
             (evs', res) \<Rightarrow> (evs @ evs', res)))"

text \<open>
  \<open>generate_chunks\<close>: the folder is created, the elevation raster is read and rescaled as a
  whole, both rasters are opened and their coordinate systems compared, and the cells are
  processed. The \<open>with\<close> block closes both rasters on every exit.
\<close>

definition generate_chunks ::
  "(fval \<Rightarrow> nat) \<Rightarrow> raster \<Rightarrow> raster \<Rightarrow> int \<Rightarrow> int \<Rightarrow> io_event list \<times> (error + unit)" where
  "generate_chunks undef_cast dsm satellite n_rows n_cols =
     (let rescale_events = [Makedirs, OpenRaster DSM, ReadBand DSM 1, CloseRaster DSM];
          opened = rescale_events @ [OpenRaster DSM, OpenRaster Satellite];
          closing = [CloseRaster Satellite, CloseRaster DSM]
      in case rescale_dsm_global undef_cast dsm of
           Inl e \<Rightarrow> (rescale_events, Inl e)
         | Inr (scaled_dsm, dsm_nodata) \<Rightarrow>
             if r_crs dsm \<noteq> r_crs satellite then (opened @ closing, Inl ValueError_CRSMismatch)
             else if n_cols = 0 \<or> n_rows = 0 then (opened @ closing, Inl ZeroDivisionError)
             else
               (case chunk_loop dsm satellite scaled_dsm dsm_nodata (common_bounds dsm satellite)
                       n_rows n_cols (List.product [0..<nat n_rows] [0..<nat n_cols]) of
                  (evs, res) \<Rightarrow> (opened @ evs @ closing, res)))"

text \<open>
  Test input: a three-band colour raster of 4 x 2 pixels of size 1 over the extent of the
  elevation test rasters, in the same coordinate system.
\<close>

definition color_raster :: raster where
  "color_raster = \<lparr>r_crs = ''EPSG:25830'',
     r_bounds = \<lparr>b_left = 0, b_bottom = 0, b_right = 4, b_top = 2\<rparr>,
     r_nodata = None, r_count = 3,
     r_band = (\<lambda>b. []),
     r_window = (\<lambda>l b r t. \<lparr>w_col_off = l, w_row_off = 2 - t, w_width = r - l, w_height = t - b\<rparr>),
     r_window_shape = (\<lambda>w. (nat \<lfloor>w_height w\<rfloor>, nat \<lfloor>w_width w\<rfloor>)),
     r_sample = (\<lambda>b w i j. 100 * int b + 10 * (\<lfloor>w_row_off w\<rfloor> + int i) + (\<lfloor>w_col_off w\<rfloor> + int j))\<rparr>"







text \<open>
  The events before the first cell and after the last one, and the cells in row-major order.
\<close>

definition splitter_prefix :: "io_event list" where
  "splitter_prefix = [Makedirs, OpenRaster DSM, ReadBand DSM 1, CloseRaster DSM,
                      OpenRaster DSM, OpenRaster Satellite]"

definition splitter_suffix :: "io_event list" where
  "splitter_suffix = [CloseRaster Satellite, CloseRaster DSM]"

definition grid_cells :: "int \<Rightarrow> int \<Rightarrow> (nat \<times> nat) list" where
  "grid_cells n_rows n_cols = List.product [0..<nat n_rows] [0..<nat n_cols]"

text \<open>Test inputs: the colour raster in another coordinate system, and with a fourth band.\<close>

definition wgs84_raster :: raster where
  "wgs84_raster = color_raster\<lparr>r_crs := ''EPSG:4326''\<rparr>"


fun window_reads :: "io_event list \<Rightarrow> (role \<times> nat list \<times> window) list" where
  "window_reads [] = []"
| "window_reads (ReadWindow r bs w # evs) = (r, bs, w) # window_reads evs"
| "window_reads (ev # evs) = window_reads evs"


section \<open>Properties of the extent planner\<close>

lemma fold_min_Min: "fold min xs (x::real) = Min (set (x # xs))"
proof (induction xs arbitrary: x)
  case Nil
  show ?case by simp
next
  case (Cons y ys)
  have "fold min (y # ys) x = Min (insert (min y x) (set ys))"
    using Cons.IH [of "min y x"] by simp
  also have "\<dots> = Min (set (x # y # ys))"
    by (cases "ys = []") (simp_all add: min.commute min.assoc)
  finally show ?case .
qed

lemma fold_max_Max: "fold max xs (x::real) = Max (set (x # xs))"
proof (induction xs arbitrary: x)
  case Nil
  show ?case by simp
next
  case (Cons y ys)
  have "fold max (y # ys) x = Max (insert (max y x) (set ys))"
    using Cons.IH [of "max y x"] by simp
  also have "\<dots> = Max (set (x # y # ys))"
    by (cases "ys = []") (simp_all add: max.commute max.assoc)
  finally show ?case .
qed



text \<open>
  C8. For the empty list of input datasets the planner fails, whatever the scale factor: the
  first \<open>min(...)\<close> over the empty sequence of bounds raises Python's \<open>ValueError\<close>, the
  program's error for an invalid (empty) input set.
\<close>

theorem compute_merge_metadata_empty:
  "compute_merge_metadata [] scale_factor = Inl ValueError_EmptySequence"
  by (simp add: compute_merge_metadata_def)






section \<open>Properties of the blockwise compositor\<close>





















section \<open>Properties of the merge operation\<close>

text \<open>
  When the merge succeeds and a source was in another coordinate system, the handle of that
  source stays open: the closing loop runs over the reprojected list, in which the in-memory
  copy has taken the source's place.
\<close>

lemma merge_rasters_reprojected_source_left_open:
  "merge_rasters example_fs (\<lambda>src band crs. None) constant_reproject [''a.tif'', ''b.tif''] 1 1 1024
     no_handles =
   (\<lparr>open_handles = [1], next_handle = 3\<rparr>,
    Inr [(\<lparr>bw_col_off = 0, bw_row_off = 0, bw_width = 2, bw_height = 1\<rparr>, [[[7, 7]]])])"
  by code_simp

lemma merge_rasters_metadata_failure_left_open:
  "merge_rasters example_fs (\<lambda>src band crs. None) constant_reproject [''a.tif''] 1 0 1024 no_handles =
   (\<lparr>open_handles = [0], next_handle = 1\<rparr>, Inl ZeroDivisionError)"
  by code_simp

lemma merge_rasters_same_crs_closed:
  "merge_rasters example_fs (\<lambda>src band crs. None) constant_reproject [''a.tif'', ''a.tif''] 1 1 1024
     no_handles =
   (\<lparr>open_handles = [], next_handle = 2\<rparr>,
    Inr [(\<lparr>bw_col_off = 0, bw_row_off = 0, bw_width = 2, bw_height = 1\<rparr>, [[[7, 7]]])])"
  by code_simp

text \<open>
  C9. Source cleanup on every exit does not hold of the code. With one readable source and a
  reprojection service that fails in the blockwise writing stage, \<open>merge_rasters\<close> ends with
  the error and the source's handle (handle 0) is still open: the closing loop is only
  reached when every stage has succeeded.
\<close>

theorem merge_rasters_failure_leaves_source_open:
  "merge_rasters example_fs (\<lambda>src band crs. None) failing_reproject [''a.tif''] 1 1 1024 no_handles =
   (\<lparr>open_handles = [0], next_handle = 1\<rparr>, Inl ReprojectionError)"
  by code_simp

section \<open>Properties of the global rescaler\<close>

lemma fold_fmin_Fin: "fold fmin (map Fin ys) (Fin y) = Fin (fold min ys y)"
  by (induction ys arbitrary: y) (simp_all add: fmin_def min_def)

lemma fold_fmax_Fin: "fold fmax (map Fin ys) (Fin y) = Fin (fold max ys y)"
  by (induction ys arbitrary: y) (simp_all add: fmax_def max_def)

lemma filter_masked:
  "filter (\<lambda>x. x \<noteq> NaN) (map (\<lambda>v. if valid_mask nd v then Fin v else NaN) xs) =
     map Fin (filter (valid_mask nd) xs)"
  by (induction xs) simp_all

lemma masked_concat:
  "concat (map (map (\<lambda>v. if valid_mask nd v then Fin v else NaN)) rows) =
     map (\<lambda>v. if valid_mask nd v then Fin v else NaN) (concat rows)"
  by (simp add: map_concat)

lemma nanmin_masked:
  assumes "filter (valid_mask nd) xs \<noteq> []"
  shows "nanmin (map (\<lambda>v. if valid_mask nd v then Fin v else NaN) xs) =
           Inr (Fin (Min (set (filter (valid_mask nd) xs))))"
proof -
  obtain y ys where f: "filter (valid_mask nd) xs = y # ys"
    using assms by (cases "filter (valid_mask nd) xs") auto
  have ne: "xs \<noteq> []" using assms by auto
  show ?thesis
    unfolding nanmin_def filter_masked f using ne
    by (simp add: fold_fmin_Fin fold_min_Min del: set_simps)
qed

lemma nanmax_masked:
  assumes "filter (valid_mask nd) xs \<noteq> []"
  shows "nanmax (map (\<lambda>v. if valid_mask nd v then Fin v else NaN) xs) =
           Inr (Fin (Max (set (filter (valid_mask nd) xs))))"
proof -
  obtain y ys where f: "filter (valid_mask nd) xs = y # ys"
    using assms by (cases "filter (valid_mask nd) xs") auto
  have ne: "xs \<noteq> []" using assms by auto
  show ?thesis
    unfolding nanmax_def filter_masked f using ne
    by (simp add: fold_fmax_Fin fold_max_Max del: set_simps)
qed

lemma nanmin_all_nan:
  assumes "xs \<noteq> []" and "filter (valid_mask nd) xs = []"
  shows "nanmin (map (\<lambda>v. if valid_mask nd v then Fin v else NaN) xs) = Inr NaN"
    and "nanmax (map (\<lambda>v. if valid_mask nd v then Fin v else NaN) xs) = Inr NaN"
  using assms unfolding nanmin_def nanmax_def filter_masked by simp_all

lemma rescale_dsm_global_valid_range:
  assumes cnt: "1 \<le> r_count src" and ne: "valid_values src \<noteq> []"
  shows "rescale_dsm_global ub src =
           Inr (map (map (\<lambda>v. scale_pixel ub (Fin (Min (set (valid_values src))))
                                 (Fin (Max (set (valid_values src))))
                                 (if valid_mask (r_nodata src) v then Fin v else NaN)))
                  (r_band src 1),
                r_nodata src)"
proof -
  let ?g = "\<lambda>v. if valid_mask (r_nodata src) v then Fin v else NaN"
  have rb: "read_band src 1 = Inr (r_band src 1)" using cnt by (simp add: read_band_def)
  have f: "filter (valid_mask (r_nodata src)) (concat (r_band src 1)) \<noteq> []"
    using ne unfolding valid_values_def .
  have nm: "nanmin (concat (map (map ?g) (r_band src 1))) = Inr (Fin (Min (set (valid_values src))))"
    by (simp only: masked_concat nanmin_masked [OF f] valid_values_def)
  have nx: "nanmax (concat (map (map ?g) (r_band src 1))) = Inr (Fin (Max (set (valid_values src))))"
    by (simp only: masked_concat nanmax_masked [OF f] valid_values_def)
  have mm: "map (map h) (map (map ?g) rows) = map (map (\<lambda>v. h (?g v))) rows" for h rows
    by (simp add: comp_def)
  show ?thesis
    by (simp only: rescale_dsm_global_def rb Let_def sum.case nm nx mm)
qed







lemma scale_pixel_flat: "scale_pixel ub (Fin m) (Fin m) (Fin m) = ub NaN"
  "scale_pixel ub (Fin m) (Fin m) NaN = ub NaN"
  "scale_pixel ub NaN NaN NaN = ub NaN"
  by (simp_all add: scale_pixel_def astype_uint16_def)

lemma rescale_dsm_global_all_nodata:
  assumes cnt: "1 \<le> r_count src" and ne: "concat (r_band src 1) \<noteq> []"
    and nv: "valid_values src = []"
  shows "rescale_dsm_global ub src =
           Inr (map (map (\<lambda>v. scale_pixel ub NaN NaN
                                 (if valid_mask (r_nodata src) v then Fin v else NaN)))
                  (r_band src 1),
                r_nodata src)"
proof -
  let ?g = "\<lambda>v. if valid_mask (r_nodata src) v then Fin v else NaN"
  have rb: "read_band src 1 = Inr (r_band src 1)" using cnt by (simp add: read_band_def)
  have f: "filter (valid_mask (r_nodata src)) (concat (r_band src 1)) = []"
    using nv unfolding valid_values_def .
  have nm: "nanmin (concat (map (map ?g) (r_band src 1))) = Inr NaN"
    by (simp only: masked_concat nanmin_all_nan [OF ne f])
  have nx: "nanmax (concat (map (map ?g) (r_band src 1))) = Inr NaN"
    by (simp only: masked_concat nanmin_all_nan [OF ne f])
  have mm: "map (map h) (map (map ?g) rows) = map (map (\<lambda>v. h (?g v))) rows" for h rows
    by (simp add: comp_def)
  show ?thesis
    by (simp only: rescale_dsm_global_def rb Let_def sum.case nm nx mm)
qed

text \<open>
  C7 (amended). For a single-band elevation raster with at least one sample whose valid
  maximum equals its valid minimum, or which is entirely nodata, the rescaler does not fail:
  there is no range check, the division by \<open>max - min = 0\<close> is carried out (giving NaN), and
  the result is a buffer of the raster's shape in which every value is the \<open>uint16\<close>
  conversion of NaN, together with the unchanged nodata sentinel.
\<close>

theorem rescale_dsm_global_degenerate:
  assumes cnt: "1 \<le> r_count src" and ne: "concat (r_band src 1) \<noteq> []"
    and flat: "valid_values src = [] \<or>
               Min (set (valid_values src)) = Max (set (valid_values src))"
  shows "rescale_dsm_global undef_cast src =
           Inr (map (map (\<lambda>v. undef_cast NaN)) (r_band src 1), r_nodata src)"
proof (cases "valid_values src = []")
  case True
  have px: "scale_pixel undef_cast NaN NaN (if valid_mask (r_nodata src) v then Fin v else NaN) =
            undef_cast NaN"
    if "row \<in> set (r_band src 1)" "v \<in> set row" for row v
  proof -
    have "v \<notin> set (valid_values src)" using True by simp
    then have "\<not> valid_mask (r_nodata src) v" using that by (auto simp: valid_values_def)
    then show ?thesis by (simp add: scale_pixel_flat)
  qed
  have "map (map (\<lambda>v. scale_pixel undef_cast NaN NaN
                         (if valid_mask (r_nodata src) v then Fin v else NaN))) (r_band src 1) =
        map (map (\<lambda>v. undef_cast NaN)) (r_band src 1)"
    using px by (intro map_cong refl) blast
  then show ?thesis using rescale_dsm_global_all_nodata [OF cnt ne True] by simp
next
  case False
  define m where "m = Min (set (valid_values src))"
  have mx: "Max (set (valid_values src)) = m" using flat False by (simp add: m_def)
  have px: "scale_pixel undef_cast (Fin m) (Fin m) (if valid_mask (r_nodata src) v then Fin v else NaN) =
            undef_cast NaN"
    if "row \<in> set (r_band src 1)" "v \<in> set row" for row v
  proof (cases "valid_mask (r_nodata src) v")
    case True
    then have "v \<in> set (valid_values src)" using that by (auto simp: valid_values_def)
    then have "m \<le> v" "v \<le> Max (set (valid_values src))" by (simp_all add: m_def)
    then have "v = m" using mx by simp
    then show ?thesis using True by (simp add: scale_pixel_flat)
  next
    case False
    then show ?thesis by (simp add: scale_pixel_flat)
  qed
  have "map (map (\<lambda>v. scale_pixel undef_cast (Fin m) (Fin m)
                         (if valid_mask (r_nodata src) v then Fin v else NaN))) (r_band src 1) =
        map (map (\<lambda>v. undef_cast NaN)) (r_band src 1)"
    using px by (intro map_cong refl) blast
  then show ?thesis
    using rescale_dsm_global_valid_range [OF cnt False, of undef_cast] unfolding mx m_def [symmetric]
    by simp
qed

theorem rescale_dsm_global_degenerate_witness:
  "1 \<le> r_count nodata_dsm \<and> concat (r_band nodata_dsm 1) \<noteq> [] \<and> valid_values nodata_dsm = [] \<and>
   (\<forall>undef_cast. rescale_dsm_global undef_cast nodata_dsm =
      Inr ([[undef_cast NaN, undef_cast NaN]], Some (- 9999)))"
proof -
  have h1: "1 \<le> r_count nodata_dsm" by (simp add: nodata_dsm_def ramp_dsm_def)
  have h2: "concat (r_band nodata_dsm 1) \<noteq> []" by (simp add: nodata_dsm_def ramp_dsm_def)
  have h3: "valid_values nodata_dsm = []"
    by (simp add: valid_values_def nodata_dsm_def ramp_dsm_def valid_mask_def)
  have "rescale_dsm_global undef_cast nodata_dsm =
      Inr ([[undef_cast NaN, undef_cast NaN]], Some (- 9999))" for undef_cast
    using rescale_dsm_global_degenerate [OF h1 h2 disjI1 [OF h3], of undef_cast]
    by (simp add: nodata_dsm_def ramp_dsm_def)
  then show ?thesis using h1 h2 h3 by blast
qed

text \<open>The claim as stated fails: a flat raster is rescaled without any error.\<close>

theorem rescale_dsm_global_flat_no_error:
  "\<forall>undef_cast. rescale_dsm_global undef_cast flat_dsm =
      Inr ([[undef_cast NaN, undef_cast NaN]], Some (- 9999))"
  by (simp add: rescale_dsm_global_def read_band_def flat_dsm_def ramp_dsm_def valid_mask_def nanmin_def
      nanmax_def fmin_def fmax_def scale_pixel_def astype_uint16_def)

section \<open>Properties of the chunk splitter\<close>






subsection \<open>File names determine the cell\<close>
















subsection \<open>The events of a run\<close>












lemma nanmin_nonempty: "xs \<noteq> [] \<Longrightarrow> \<exists>m. nanmin xs = Inr m"
  by (cases "filter (\<lambda>x. x \<noteq> NaN) xs") (simp_all add: nanmin_def)

lemma nanmax_nonempty: "xs \<noteq> [] \<Longrightarrow> \<exists>m. nanmax xs = Inr m"
  by (cases "filter (\<lambda>x. x \<noteq> NaN) xs") (simp_all add: nanmax_def)

lemma rescale_dsm_global_total:
  assumes "1 \<le> r_count dsm" and "concat (r_band dsm 1) \<noteq> []"
  shows "\<exists>scaled_dsm. rescale_dsm_global undef_cast dsm = Inr (scaled_dsm, r_nodata dsm)"
proof -
  let ?g = "\<lambda>v. if valid_mask (r_nodata dsm) v then Fin v else NaN"
  have rb: "read_band dsm 1 = Inr (r_band dsm 1)" using assms(1) by (simp add: read_band_def)
  have ne: "concat (map (map ?g) (r_band dsm 1)) \<noteq> []"
    using assms(2) by (simp only: masked_concat) simp
  obtain mn where mn: "nanmin (concat (map (map ?g) (r_band dsm 1))) = Inr mn"
    using nanmin_nonempty [OF ne] by blast
  obtain mx where mx: "nanmax (concat (map (map ?g) (r_band dsm 1))) = Inr mx"
    using nanmax_nonempty [OF ne] by blast
  show ?thesis
    by (simp only: rescale_dsm_global_def rb Let_def sum.case mn mx) blast
qed

lemma generate_chunks_crs_mismatch:
  assumes "r_crs dsm \<noteq> r_crs satellite" and "1 \<le> r_count dsm" and "concat (r_band dsm 1) \<noteq> []"
  shows "generate_chunks undef_cast dsm satellite n_rows n_cols =
           (splitter_prefix @ splitter_suffix, Inl ValueError_CRSMismatch)"
proof -
  obtain scaled where "rescale_dsm_global undef_cast dsm = Inr (scaled, r_nodata dsm)"
    using rescale_dsm_global_total [OF assms(2,3)] by blast
  then show ?thesis
    using assms(1) by (simp add: generate_chunks_def splitter_prefix_def splitter_suffix_def)
qed






lemma saved_pngs_frame [simp]: "saved_pngs splitter_prefix = []" "saved_pngs splitter_suffix = []"
  by (simp_all add: splitter_prefix_def splitter_suffix_def)









subsection \<open>Failure on a coordinate system mismatch, emission of the grid, the three-band read\<close>

lemma raster_reads_frame:
  "raster_reads (splitter_prefix @ splitter_suffix) = [ReadBand DSM 1]"
  by (simp add: splitter_prefix_def splitter_suffix_def)

text \<open>
  C6 (amended). Whenever the coordinate systems of the two mosaics differ and the elevation
  raster can be read (at least one band and one sample), \<open>generate_chunks\<close> fails with the
  CRS-mismatch \<open>ValueError\<close> for every grid shape and writes no tile file. It does so after
  having created the output folder, read and rescaled the whole elevation band and opened
  both rasters: the only raster read before the failure is that of the elevation band, and
  no tile window is read.
\<close>

theorem generate_chunks_crs_mismatch_fails:
  assumes "r_crs dsm \<noteq> r_crs satellite" and "1 \<le> r_count dsm" and "concat (r_band dsm 1) \<noteq> []"
  shows "snd (generate_chunks undef_cast dsm satellite n_rows n_cols) = Inl ValueError_CRSMismatch \<and>
         fst (generate_chunks undef_cast dsm satellite n_rows n_cols) =
           [Makedirs, OpenRaster DSM, ReadBand DSM 1, CloseRaster DSM,
            OpenRaster DSM, OpenRaster Satellite, CloseRaster Satellite, CloseRaster DSM] \<and>
         raster_reads (fst (generate_chunks undef_cast dsm satellite n_rows n_cols)) = [ReadBand DSM 1] \<and>
         saved_pngs (fst (generate_chunks undef_cast dsm satellite n_rows n_cols)) = []"
  unfolding generate_chunks_crs_mismatch [OF assms]
  by (simp add: splitter_prefix_def splitter_suffix_def)

lemma ramp_dsm_readable: "1 \<le> r_count ramp_dsm" "concat (r_band ramp_dsm 1) \<noteq> []"
  by (simp_all add: ramp_dsm_def)

lemma wgs84_crs_differs: "r_crs ramp_dsm \<noteq> r_crs wgs84_raster"
  by (simp add: ramp_dsm_def wgs84_raster_def color_raster_def)

theorem generate_chunks_crs_mismatch_fails_witness:
  "r_crs ramp_dsm \<noteq> r_crs wgs84_raster \<and> 1 \<le> r_count ramp_dsm \<and> concat (r_band ramp_dsm 1) \<noteq> [] \<and>
   (\<forall>undef_cast.
      snd (generate_chunks undef_cast ramp_dsm wgs84_raster 4 4) = Inl ValueError_CRSMismatch \<and>
      saved_pngs (fst (generate_chunks undef_cast ramp_dsm wgs84_raster 4 4)) = [])"
  using generate_chunks_crs_mismatch_fails [OF wgs84_crs_differs ramp_dsm_readable, of _ 4 4]
    wgs84_crs_differs ramp_dsm_readable
  by blast

text \<open>
  The claim as stated fails: with differing coordinate systems the elevation band has been
  read in full before the error is raised.
\<close>

theorem generate_chunks_reads_dsm_before_crs_check:
  "r_crs ramp_dsm \<noteq> r_crs wgs84_raster \<and>
   (\<forall>undef_cast.
      snd (generate_chunks undef_cast ramp_dsm wgs84_raster 4 4) = Inl ValueError_CRSMismatch \<and>
      raster_reads (fst (generate_chunks undef_cast ramp_dsm wgs84_raster 4 4)) = [ReadBand DSM 1])"
  unfolding generate_chunks_crs_mismatch [OF wgs84_crs_differs ramp_dsm_readable]
  using wgs84_crs_differs by (simp add: raster_reads_frame)



lemma grid_cells_4_4:
  "grid_cells 4 4 = [(0, 0), (0, 1), (0, 2), (0, 3), (1, 0), (1, 1), (1, 2), (1, 3),
                     (2, 0), (2, 1), (2, 2), (2, 3), (3, 0), (3, 1), (3, 2), (3, 3)]"
  by code_simp






lemma window_reads_frame [simp]: "window_reads splitter_prefix = []" "window_reads splitter_suffix = []"
  by (simp_all add: splitter_prefix_def splitter_suffix_def)








end
